theory Spec2Isabelle
  imports Main "HOL-Library.Word"
begin

unbundle bit_operations_syntax

section \<open>Tokens\<close>

text \<open>
  The lexer package is not among the sources. The token kinds are the ones
  \<^verbatim>\<open>declaration.go\<close> names, the two kinds of trivia that
  \<^verbatim>\<open>skipSpaceAndComments\<close> passes over, and \<open>TokenOther\<close> for every
  other kind of the lexer (braces, operators, numbers, ...).
\<close>

datatype TokenType =
    TokenIdentifier
  | TokenString
  | TokenHexadecimalLiteral
  | TokenComma
  | TokenColon
  | TokenParenOpen
  | TokenParenClose
  | TokenEqual
  | TokenLeftArrow
  | TokenLeftArrowExclamation
  | TokenSemicolon
  | TokenEOF
  | TokenSpace
  | TokenComment
  | TokenOther nat

record Position =
  Offset :: int
  Line :: int
  Column :: int

text \<open>
  Go's \<^verbatim>\<open>Token.Value\<close> is an \<^verbatim>\<open>interface{}\<close>: the parser compares it
  with keyword strings and asserts it to be a string
  (\<^verbatim>\<open>p.current.Value.(string)\<close>), which panics on any other payload.
\<close>

datatype TokenValue = StringValue string | OtherValue

record Token =
  Type :: TokenType
  Value :: TokenValue
  StartPos :: Position
  EndPos :: Position

section \<open>Errors\<close>

text \<open>
  A panic is a value. \<open>Errorf\<close> keeps the format string of
  \<^verbatim>\<open>fmt.Errorf\<close> and its arguments apart, so that no rendering of token kinds
  has to be invented.
\<close>

datatype FormatArg =
    ArgString string
  | ArgTokenType TokenType
  | ArgValue TokenValue

datatype error =
    Errorf string "FormatArg list"
  | UnreachableError
  | TypeAssertionError
  | SliceBoundsError
  | IndexOutOfRangeError
  | InvalidByteError "8 word"
  | ErrLength

section \<open>The token cursor\<close>

text \<open>
  Modelled from the spec: the parser struct and its methods
  (\<^verbatim>\<open>current\<close>, \<^verbatim>\<open>next\<close>, \<^verbatim>\<open>skipSpaceAndComments\<close>,
  \<^verbatim>\<open>mustOne\<close>, \<^verbatim>\<open>report\<close>) are not among the sources. The spec describes
  a token cursor that exposes the current token and an advance operation, owned by one
  parse invocation, together with an accumulator of soft diagnostics. The cursor is
  the list of tokens not yet consumed; its head is the current token, and an exhausted
  stream reads as end-of-input.
\<close>

record parser =
  tokens :: "Token list"
  errors :: "error list"

definition zeroPosition :: Position where
  "zeroPosition = \<lparr>Offset = 0, Line = 0, Column = 0\<rparr>"

definition eofToken :: Token where
  "eofToken = \<lparr>Type = TokenEOF, Token.Value = OtherValue,
                Token.StartPos = zeroPosition, Token.EndPos = zeroPosition\<rparr>"

definition current :: "parser \<Rightarrow> Token" where
  "current p = (case tokens p of [] \<Rightarrow> eofToken | t # _ \<Rightarrow> t)"

definition next_token :: "parser \<Rightarrow> parser" where
  "next_token p = p\<lparr>tokens := tl (tokens p)\<rparr>"

definition isTrivia :: "Token \<Rightarrow> bool" where
  "isTrivia t = (Type t = TokenSpace \<or> Type t = TokenComment)"

definition skipSpaceAndComments :: "parser \<Rightarrow> parser" where
  "skipSpaceAndComments p = p\<lparr>tokens := dropWhile isTrivia (tokens p)\<rparr>"

definition mustOne :: "parser \<Rightarrow> TokenType \<Rightarrow> error + parser" where
  "mustOne p tokenType =
     (if Type (current p) \<noteq> tokenType
      then Inl (Errorf ''expected token %s'' [ArgTokenType tokenType])
      else Inr (next_token p))"

definition report :: "parser \<Rightarrow> error list \<Rightarrow> parser" where
  "report p errs = p\<lparr>errors := errors p @ errs\<rparr>"

section \<open>Keywords\<close>

text \<open>
  Modelled from the spec: the keyword constants are declared in a file that is not
  among the sources; the spec lists their spellings.
\<close>

definition keywordLet :: string where "keywordLet = ''let''"
definition keywordVar :: string where "keywordVar = ''var''"
definition keywordFun :: string where "keywordFun = ''fun''"
definition keywordImport :: string where "keywordImport = ''import''"
definition keywordFrom :: string where "keywordFrom = ''from''"
definition keywordEvent :: string where "keywordEvent = ''event''"
definition keywordPriv :: string where "keywordPriv = ''priv''"
definition keywordPub :: string where "keywordPub = ''pub''"
definition keywordAccess :: string where "keywordAccess = ''access''"
definition keywordAll :: string where "keywordAll = ''all''"
definition keywordAccount :: string where "keywordAccount = ''account''"
definition keywordContract :: string where "keywordContract = ''contract''"
definition keywordSelf :: string where "keywordSelf = ''self''"
definition keywordSet :: string where "keywordSet = ''set''"

lemmas keyword_defs =
  keywordLet_def keywordVar_def keywordFun_def keywordImport_def keywordFrom_def
  keywordEvent_def keywordPriv_def keywordPub_def keywordAccess_def keywordAll_def
  keywordAccount_def keywordContract_def keywordSelf_def keywordSet_def

section \<open>Syntax tree\<close>

text \<open>
  The ast package is not among the sources. Each node carries the fields that the
  struct literals of \<^verbatim>\<open>declaration.go\<close> set; a pointer that may be nil is an
  \<open>option\<close>. Nodes built by other parsers (expressions, type annotations,
  parameters, function blocks) are type parameters.
\<close>

datatype Access =
    AccessNotSpecified
  | AccessPrivate
  | AccessPublic
  | AccessPublicSettable
  | AccessAccount
  | AccessContract

datatype TransferOperation =
    TransferOperationUnknown
  | TransferOperationCopy
  | TransferOperationMove
  | TransferOperationMoveForced

record Transfer =
  Operation :: TransferOperation
  Pos :: Position

record Identifier =
  Identifier :: string
  Pos :: Position

record Range =
  StartPos :: Position
  EndPos :: Position

datatype Location =
    StringLocation string
  | AddressLocation "8 word list"

record ('e, 't) VariableDeclaration =
  Access :: Access
  IsConstant :: bool
  Identifier :: Identifier
  TypeAnnotation :: "'t option"
  Value :: 'e
  Transfer :: "Transfer option"
  StartPos :: Position
  SecondTransfer :: "Transfer option"
  SecondValue :: "'e option"

record ImportDeclaration =
  Identifiers :: "Identifier list"
  Location :: "Location option"
  Range :: Range
  LocationPos :: Position

record 'prm ParameterList =
  Parameters :: "'prm list"
  Range :: Range

text \<open>
  Of a function declaration, the parser of events sets the parameter list and the
  start position; the function block is the body the spec speaks of, left nil.
\<close>

record ('prm, 'fb) FunctionDeclaration =
  ParameterList :: "'prm ParameterList option"
  FunctionBlock :: "'fb option"
  StartPos :: Position

datatype DeclarationKind =
    DeclarationKindUnknown
  | DeclarationKindInitializer
  | DeclarationKindOther nat

datatype CompositeKind =
    CompositeKindUnknown
  | CompositeKindEvent
  | CompositeKindOther nat

record ('prm, 'fb) SpecialFunctionDeclaration =
  DeclarationKind :: DeclarationKind
  FunctionDeclaration :: "('prm, 'fb) FunctionDeclaration"

text \<open>
  \<open>OtherMembers\<close> stands for every member slice of \<^verbatim>\<open>ast.Members\<close> other
  than \<^verbatim>\<open>SpecialFunctions\<close>; a struct literal that does not name them leaves
  them empty, and only their emptiness is of interest here.
\<close>

record ('prm, 'fb) Members =
  SpecialFunctions :: "('prm, 'fb) SpecialFunctionDeclaration list"
  OtherMembers :: "unit list"

record ('prm, 'fb) CompositeDeclaration =
  Access :: Access
  CompositeKind :: CompositeKind
  Identifier :: Identifier
  Members :: "('prm, 'fb) Members"
  Range :: Range

text \<open>
  \<^verbatim>\<open>ast.Declaration\<close> is an interface; the parser returns one of four node
  types through it, or nil (\<open>None\<close> in the results below).
\<close>

datatype ('e, 't, 'prm, 'fb) Declaration =
    DeclVariable "('e, 't) VariableDeclaration"
  | DeclFunction "('prm, 'fb) FunctionDeclaration"
  | DeclImport ImportDeclaration
  | DeclComposite "('prm, 'fb) CompositeDeclaration"

section \<open>Collaborating parsers\<close>

text \<open>
  The expression, type-annotation, parameter-list and function-declaration parsers,
  the decoder of string literals, the lowest binding power and the end position of
  an identifier are defined outside \<^verbatim>\<open>declaration.go\<close>; they are parameters
  of the model. A collaborating parser takes the cursor and returns the node it
  built and the cursor it left, or panics.
\<close>

record ('e, 't, 'prm, 'fb) collaborators =
  parseExpression :: "parser \<Rightarrow> int \<Rightarrow> error + ('e \<times> parser)"
  lowestBindingPower :: int
  parseTypeAnnotation :: "parser \<Rightarrow> error + ('t \<times> parser)"
  parseParameterList :: "parser \<Rightarrow> error + ('prm ParameterList \<times> parser)"
  parseFunctionDeclaration ::
    "parser \<Rightarrow> Access \<Rightarrow> Position option
       \<Rightarrow> error + (('prm, 'fb) FunctionDeclaration \<times> parser)"
  parseStringLiteral :: "string \<Rightarrow> string \<times> error list"
  EndPosition :: "Identifier \<Rightarrow> Position"

text \<open>
  \<^verbatim>\<open>tokenToIdentifier\<close> is written as the event parser builds its identifier
  inline: the token's string payload and its start position.
\<close>

definition tokenToIdentifier :: "Token \<Rightarrow> error + Identifier" where
  "tokenToIdentifier t =
     (case Token.Value t of
        StringValue s \<Rightarrow> Inr \<lparr>Identifier.Identifier = s, Identifier.Pos = Token.StartPos t\<rparr>
      | OtherValue \<Rightarrow> Inl TypeAssertionError)"

section \<open>Access modifiers\<close>

definition parseAccess :: "parser \<Rightarrow> error + (Access \<times> parser)" where
  "parseAccess p =
     (if Token.Value (current p) = StringValue keywordPriv then
        Inr (AccessPrivate, next_token p)
      else if Token.Value (current p) = StringValue keywordPub then
        (let p1 = skipSpaceAndComments (next_token p) in
         if Type (current p1) \<noteq> TokenParenOpen then Inr (AccessPublic, p1)
         else
           (let p2 = skipSpaceAndComments (next_token p1) in
            if Type (current p2) \<noteq> TokenIdentifier then
              Inl (Errorf ''expected keyword %q, got %s''
                     [ArgString keywordSet, ArgTokenType (Type (current p2))])
            else if Token.Value (current p2) \<noteq> StringValue keywordSet then
              Inl (Errorf ''expected keyword %q, got %q''
                     [ArgString keywordSet, ArgValue (Token.Value (current p2))])
            else
              (let p3 = skipSpaceAndComments (next_token p2) in
               case mustOne p3 TokenParenClose of
                 Inl e \<Rightarrow> Inl e
               | Inr p4 \<Rightarrow> Inr (AccessPublicSettable, p4))))
      else if Token.Value (current p) = StringValue keywordAccess then
        (let p1 = skipSpaceAndComments (next_token p) in
         case mustOne p1 TokenParenOpen of
           Inl e \<Rightarrow> Inl e
         | Inr p1' \<Rightarrow>
             (let p2 = skipSpaceAndComments p1' in
              if Type (current p2) \<noteq> TokenIdentifier then
                Inl (Errorf ''expected keyword %q, %q, %q, or %q, got %s''
                       [ArgString keywordAll, ArgString keywordAccount,
                        ArgString keywordContract, ArgString keywordSelf,
                        ArgTokenType (Type (current p2))])
              else
                (case
                   (if Token.Value (current p2) = StringValue keywordAll then
                      Inr AccessPublic
                    else if Token.Value (current p2) = StringValue keywordAccount then
                      Inr AccessAccount
                    else if Token.Value (current p2) = StringValue keywordContract then
                      Inr AccessContract
                    else if Token.Value (current p2) = StringValue keywordSelf then
                      Inr AccessPrivate
                    else
                      Inl (Errorf ''expected keyword %q, %q, %q, or %q, got %q''
                             [ArgString keywordAll, ArgString keywordAccount,
                              ArgString keywordContract, ArgString keywordSelf,
                              ArgValue (Token.Value (current p2))]))
                 of
                   Inl e \<Rightarrow> Inl e
                 | Inr access \<Rightarrow>
                     (let p3 = skipSpaceAndComments (next_token p2) in
                      case mustOne p3 TokenParenClose of
                        Inl e \<Rightarrow> Inl e
                      | Inr p4 \<Rightarrow> Inr (access, p4)))))
      else Inl UnreachableError)"

section \<open>Transfer operators\<close>

definition parseTransfer :: "parser \<Rightarrow> Transfer option \<times> parser" where
  "parseTransfer p =
     (let operation =
        (case Type (current p) of
           TokenEqual \<Rightarrow> TransferOperationCopy
         | TokenLeftArrow \<Rightarrow> TransferOperationMove
         | TokenLeftArrowExclamation \<Rightarrow> TransferOperationMoveForced
         | _ \<Rightarrow> TransferOperationUnknown)
      in if operation = TransferOperationUnknown then (None, p)
         else (let pos = Token.StartPos (current p)
               in (Some \<lparr>Operation = operation, Transfer.Pos = pos\<rparr>, next_token p)))"

section \<open>Variable declarations\<close>

definition parseVariableDeclaration ::
  "('e, 't, 'prm, 'fb) collaborators \<Rightarrow> Access \<Rightarrow> Position option \<Rightarrow> parser
     \<Rightarrow> error + (('e, 't) VariableDeclaration \<times> parser)" where
  "parseVariableDeclaration C access accessPos p =
     (let startPos = (case accessPos of None \<Rightarrow> Token.StartPos (current p) | Some pos \<Rightarrow> pos);
          isLet = (Token.Value (current p) = StringValue keywordLet);
          p1 = skipSpaceAndComments (next_token p)
      in
      if Type (current p1) \<noteq> TokenIdentifier then
        Inl (Errorf ''expected identifier after start of variable declaration, got %s''
               [ArgTokenType (Type (current p1))])
      else
        case tokenToIdentifier (current p1) of
          Inl e \<Rightarrow> Inl e
        | Inr identifier \<Rightarrow>
            (let p2 = skipSpaceAndComments (next_token p1) in
             case
               (if Type (current p2) = TokenColon then
                  (case parseTypeAnnotation C (skipSpaceAndComments (next_token p2)) of
                     Inl e \<Rightarrow> Inl e
                   | Inr (ta, pa) \<Rightarrow> Inr (Some ta, pa))
                else Inr (None, p2))
             of
               Inl e \<Rightarrow> Inl e
             | Inr (typeAnnotation, p3) \<Rightarrow>
                 (case parseTransfer (skipSpaceAndComments p3) of
                    (transfer, p4) \<Rightarrow>
                      if transfer = None then Inl (Errorf ''expected transfer'' [])
                      else
                        case parseExpression C p4 (lowestBindingPower C) of
                          Inl e \<Rightarrow> Inl e
                        | Inr (value, p5) \<Rightarrow>
                            (case parseTransfer (skipSpaceAndComments p5) of
                               (secondTransfer, p6) \<Rightarrow>
                                 case
                                   (if secondTransfer \<noteq> None then
                                      (case parseExpression C p6 (lowestBindingPower C) of
                                         Inl e \<Rightarrow> Inl e
                                       | Inr (v, p7) \<Rightarrow> Inr (Some v, p7))
                                    else Inr (None, p6))
                                 of
                                   Inl e \<Rightarrow> Inl e
                                 | Inr (secondValue, p8) \<Rightarrow>
                                     Inr (\<lparr>VariableDeclaration.Access = access,
                                           IsConstant = isLet,
                                           VariableDeclaration.Identifier = identifier,
                                           TypeAnnotation = typeAnnotation,
                                           VariableDeclaration.Value = value,
                                           Transfer = transfer,
                                           VariableDeclaration.StartPos = startPos,
                                           SecondTransfer = secondTransfer,
                                           SecondValue = secondValue\<rparr>, p8)))))"

section \<open>Hexadecimal locations\<close>

text \<open>
  \<^verbatim>\<open>encoding/hex\<close> of Go's standard library: \<^verbatim>\<open>fromHexChar\<close> gives the value
  of a digit, \<^verbatim>\<open>DecodedLen\<close> halves a length, and \<^verbatim>\<open>Decode\<close> walks the
  source with two indices, writing one byte of the destination for each pair of
  digits; it fails on the first byte that is no digit and on a source of odd length.
\<close>

definition fromHexChar :: "char \<Rightarrow> (8 word) option" where
  "fromHexChar c =
     (let n = (of_char c :: nat) in
      if 48 \<le> n \<and> n \<le> 57 then Some (of_nat (n - 48))
      else if 97 \<le> n \<and> n \<le> 102 then Some (of_nat (n - 97 + 10))
      else if 65 \<le> n \<and> n \<le> 70 then Some (of_nat (n - 65 + 10))
      else None)"

definition DecodedLen :: "nat \<Rightarrow> nat" where
  "DecodedLen x = x div 2"

function hexDecodeLoop :: "8 word list \<Rightarrow> string \<Rightarrow> nat \<Rightarrow> nat \<Rightarrow> error + 8 word list" where
  "hexDecodeLoop dst src i j =
     (if j < length src then
        (case fromHexChar (src ! (j - 1)) of
           None \<Rightarrow> Inl (InvalidByteError (of_char (src ! (j - 1))))
         | Some a \<Rightarrow>
             (case fromHexChar (src ! j) of
                None \<Rightarrow> Inl (InvalidByteError (of_char (src ! j)))
              | Some b \<Rightarrow>
                  if i < length dst
                  then hexDecodeLoop (dst[i := push_bit 4 a OR b]) src (i + 1) (j + 2)
                  else Inl IndexOutOfRangeError))
      else if length src mod 2 = 1 then
        (case fromHexChar (src ! (j - 1)) of
           None \<Rightarrow> Inl (InvalidByteError (of_char (src ! (j - 1))))
         | Some _ \<Rightarrow> Inl ErrLength)
      else Inr dst)"
  by pat_completeness auto
termination
  by (relation "measure (\<lambda>(dst, src, i, j). length src - j)") auto

declare hexDecodeLoop.simps [simp del]

definition hexDecode :: "8 word list \<Rightarrow> string \<Rightarrow> error + 8 word list" where
  "hexDecode dst src = hexDecodeLoop dst src 0 1"

definition parseHexadecimalLocation :: "string \<Rightarrow> error + 8 word list" where
  "parseHexadecimalLocation literal =
     (if length literal < 2 then Inl SliceBoundsError
      else
        (let bytes = filter (\<lambda>c. c \<noteq> CHR ''_'') (drop 2 literal);
             len = length bytes;
             (bytes, len) =
               (if len mod 2 = 1 then (CHR ''0'' # bytes, len + 1) else (bytes, len));
             address = replicate (DecodedLen len) (0 :: 8 word)
         in hexDecode address bytes))"

section \<open>Import declarations\<close>

text \<open>
  The closures of \<^verbatim>\<open>parseImportDeclaration\<close> share four local variables; they
  are the fields of \<open>importState\<close>, which every closure takes and returns together
  with the cursor.
\<close>

record importState =
  identifiers :: "Identifier list"
  location :: "Location option"
  locationPos :: Position
  endPos :: Position

definition parseStringOrAddressLocation ::
  "('e, 't, 'prm, 'fb) collaborators \<Rightarrow> importState \<Rightarrow> parser
     \<Rightarrow> error + (importState \<times> parser)" where
  "parseStringOrAddressLocation C st p =
     (let st1 = st\<lparr>locationPos := Token.StartPos (current p),
                    endPos := Token.EndPos (current p)\<rparr>
      in
      if Type (current p) = TokenString then
        (case Token.Value (current p) of
           OtherValue \<Rightarrow> Inl TypeAssertionError
         | StringValue literal \<Rightarrow>
             (case parseStringLiteral C literal of
                (parsedString, errs) \<Rightarrow>
                  Inr (st1\<lparr>location := Some (StringLocation parsedString)\<rparr>,
                       next_token (report p errs))))
      else if Type (current p) = TokenHexadecimalLiteral then
        (case Token.Value (current p) of
           OtherValue \<Rightarrow> Inl TypeAssertionError
         | StringValue literal \<Rightarrow>
             (case parseHexadecimalLocation literal of
                Inl e \<Rightarrow> Inl e
              | Inr address \<Rightarrow>
                  Inr (st1\<lparr>location := Some (AddressLocation address)\<rparr>, next_token p)))
      else Inl UnreachableError)"

text \<open>
  The assignment of an identifier location is commented out in the source: only the
  two positions are set.
\<close>

definition setIdentifierLocation ::
  "('e, 't, 'prm, 'fb) collaborators \<Rightarrow> importState \<Rightarrow> Identifier \<Rightarrow> importState" where
  "setIdentifierLocation C st identifier =
     st\<lparr>locationPos := Identifier.Pos identifier, endPos := EndPosition C identifier\<rparr>"

definition parseLocation ::
  "('e, 't, 'prm, 'fb) collaborators \<Rightarrow> importState \<Rightarrow> parser
     \<Rightarrow> error + (importState \<times> parser)" where
  "parseLocation C st p =
     (if Type (current p) = TokenString \<or> Type (current p) = TokenHexadecimalLiteral then
        parseStringOrAddressLocation C st p
      else
        Inl (Errorf
          ''unexpected token in import declaration: got %s, expected string, address, or identifier''
          [ArgTokenType (Type (current p))]))"

lemma next_token_shorter:
  "Type (current (skipSpaceAndComments (next_token p))) \<noteq> TokenEOF
     \<Longrightarrow> length (tokens (skipSpaceAndComments (next_token p))) < length (tokens p)"
proof (cases "tokens p")
  case Nil
  assume "Type (current (skipSpaceAndComments (next_token p))) \<noteq> TokenEOF"
  with Nil show ?thesis
    by (simp add: current_def skipSpaceAndComments_def next_token_def eofToken_def)
next
  case (Cons t ts)
  have "length (dropWhile isTrivia ts) \<le> length ts"
    by (rule length_dropWhile_le)
  with Cons show ?thesis
    by (simp add: skipSpaceAndComments_def next_token_def)
qed

function parseMoreIdentifiers ::
  "('e, 't, 'prm, 'fb) collaborators \<Rightarrow> bool \<Rightarrow> importState \<Rightarrow> parser
     \<Rightarrow> error + (importState \<times> parser)" where
  "parseMoreIdentifiers C expectCommaOrFrom st p =
     (let p1 = skipSpaceAndComments (next_token p) in
      if Type (current p1) = TokenComma then
        (if \<not> expectCommaOrFrom then
           Inl (Errorf ''expected %s or keyword %q, got %s''
                  [ArgTokenType TokenIdentifier, ArgString keywordFrom,
                   ArgTokenType (Type (current p1))])
         else parseMoreIdentifiers C False st p1)
      else if Type (current p1) = TokenIdentifier then
        (if Token.Value (current p1) = StringValue keywordFrom then
           (if \<not> expectCommaOrFrom then
              Inl (Errorf ''expected %s, got keyword %q''
                     [ArgTokenType TokenIdentifier, ArgValue (Token.Value (current p1))])
            else parseLocation C st (skipSpaceAndComments (next_token p1)))
         else
           (case tokenToIdentifier (current p1) of
              Inl e \<Rightarrow> Inl e
            | Inr identifier \<Rightarrow>
                parseMoreIdentifiers C True
                  (st\<lparr>identifiers := identifiers st @ [identifier]\<rparr>) p1))
      else if Type (current p1) = TokenEOF then
        Inl (Errorf ''unexpected end in import declaration: expected %s or %s''
               [ArgTokenType TokenIdentifier, ArgTokenType TokenComma])
      else
        Inl (Errorf
          ''unexpected token in import declaration: got %s, expected keyword %q or %s''
          [ArgTokenType (Type (current p1)), ArgString keywordFrom,
           ArgTokenType TokenComma]))"
  by pat_completeness auto
termination
  by (relation "measure (\<lambda>(C, expectCommaOrFrom, st, p). length (tokens p))")
     (auto intro!: next_token_shorter)

declare parseMoreIdentifiers.simps [simp del]

definition maybeParseFromIdentifier ::
  "('e, 't, 'prm, 'fb) collaborators \<Rightarrow> importState \<Rightarrow> Identifier \<Rightarrow> parser
     \<Rightarrow> error + (importState \<times> parser)" where
  "maybeParseFromIdentifier C st identifier p =
     (if Token.Value (current p) = StringValue keywordFrom then
        parseLocation C (st\<lparr>identifiers := identifiers st @ [identifier]\<rparr>)
          (skipSpaceAndComments (next_token p))
      else
        Inl (Errorf ''unexpected identifier in import declaration: got %q, expected %q''
               [ArgValue (Token.Value (current p)), ArgString keywordFrom]))"

definition parseImportDeclaration ::
  "('e, 't, 'prm, 'fb) collaborators \<Rightarrow> parser \<Rightarrow> error + (ImportDeclaration \<times> parser)" where
  "parseImportDeclaration C p =
     (let startPosition = Token.StartPos (current p);
          st0 = \<lparr>identifiers = [], location = None,
                 locationPos = zeroPosition, endPos = zeroPosition\<rparr>;
          p1 = skipSpaceAndComments (next_token p)
      in
      case
        (if Type (current p1) = TokenString \<or> Type (current p1) = TokenHexadecimalLiteral then
           parseStringOrAddressLocation C st0 p1
         else if Type (current p1) = TokenIdentifier then
           (case tokenToIdentifier (current p1) of
              Inl e \<Rightarrow> Inl e
            | Inr identifier \<Rightarrow>
                (let p2 = skipSpaceAndComments (next_token p1) in
                 if Type (current p2) = TokenComma then
                   parseMoreIdentifiers C False
                     (st0\<lparr>identifiers := identifiers st0 @ [identifier]\<rparr>) p2
                 else if Type (current p2) = TokenIdentifier then
                   maybeParseFromIdentifier C st0 identifier p2
                 else if Type (current p2) = TokenEOF then
                   Inr (setIdentifierLocation C st0 identifier, p2)
                 else
                   Inl (Errorf
                     ''unexpected token in import declaration: got %s, expected keyword %q or %s''
                     [ArgTokenType (Type (current p2)), ArgString keywordFrom,
                      ArgTokenType TokenComma])))
         else if Type (current p1) = TokenEOF then
           Inl (Errorf
             ''unexpected end in import declaration: expected string, address, or identifier''
             [])
         else
           Inl (Errorf
             ''unexpected token in import declaration: got %s, expected string, address, or identifier''
             [ArgTokenType (Type (current p1))]))
      of
        Inl e \<Rightarrow> Inl e
      | Inr (st, p') \<Rightarrow>
          Inr (\<lparr>Identifiers = identifiers st,
                Location = location st,
                ImportDeclaration.Range =
                  \<lparr>Range.StartPos = startPosition, Range.EndPos = endPos st\<rparr>,
                LocationPos = locationPos st\<rparr>, p'))"

section \<open>Event declarations\<close>

definition parseEventDeclaration ::
  "('e, 't, 'prm, 'fb) collaborators \<Rightarrow> Access \<Rightarrow> Position option \<Rightarrow> parser
     \<Rightarrow> error + (('prm, 'fb) CompositeDeclaration \<times> parser)" where
  "parseEventDeclaration C access accessPos p =
     (let startPos = (case accessPos of None \<Rightarrow> Token.StartPos (current p) | Some pos \<Rightarrow> pos);
          p1 = skipSpaceAndComments (next_token p)
      in
      if Type (current p1) \<noteq> TokenIdentifier then
        Inl (Errorf ''expected identifier after start of event declaration, got %s''
               [ArgTokenType (Type (current p1))])
      else
        case Token.Value (current p1) of
          OtherValue \<Rightarrow> Inl TypeAssertionError
        | StringValue name \<Rightarrow>
            (let identifier = \<lparr>Identifier.Identifier = name,
                               Identifier.Pos = Token.StartPos (current p1)\<rparr>;
                 p2 = next_token p1
             in
             case parseParameterList C p2 of
               Inl e \<Rightarrow> Inl e
             | Inr (parameterList, p3) \<Rightarrow>
                 (let initializer =
                    \<lparr>DeclarationKind = DeclarationKindInitializer,
                     FunctionDeclaration =
                       \<lparr>ParameterList = Some parameterList,
                        FunctionBlock = None,
                        FunctionDeclaration.StartPos =
                          Range.StartPos (ParameterList.Range parameterList)\<rparr>\<rparr>
                  in
                  Inr (\<lparr>CompositeDeclaration.Access = access,
                        CompositeKind = CompositeKindEvent,
                        CompositeDeclaration.Identifier = identifier,
                        Members = \<lparr>SpecialFunctions = [initializer], OtherMembers = []\<rparr>,
                        CompositeDeclaration.Range =
                          \<lparr>Range.StartPos = startPos,
                           Range.EndPos = Range.EndPos (ParameterList.Range parameterList)\<rparr>\<rparr>,
                       p3))))"

section \<open>The declaration dispatcher\<close>

lemma parseAccess_specified: "parseAccess p = Inr (access, p') \<Longrightarrow> access \<noteq> AccessNotSpecified"
  by (auto simp: parseAccess_def Let_def split: if_splits sum.splits)

text \<open>
  \<^verbatim>\<open>parseDeclaration\<close> is a loop over two local variables, the access modifier
  read so far and its position; \<open>parseDeclarationLoop\<close> is the loop, entered with
  their initial values.
\<close>

function parseDeclarationLoop ::
  "('e, 't, 'prm, 'fb) collaborators \<Rightarrow> Access \<Rightarrow> Position option \<Rightarrow> parser
     \<Rightarrow> error + (('e, 't, 'prm, 'fb) Declaration option \<times> parser)" where
  "parseDeclarationLoop C access accessPos p =
     (let p1 = skipSpaceAndComments p in
      if Type (current p1) = TokenIdentifier then
        (if Token.Value (current p1) = StringValue keywordLet
            \<or> Token.Value (current p1) = StringValue keywordVar then
           (case parseVariableDeclaration C access accessPos p1 of
              Inl e \<Rightarrow> Inl e
            | Inr (d, p2) \<Rightarrow> Inr (Some (DeclVariable d), p2))
         else if Token.Value (current p1) = StringValue keywordFun then
           (case parseFunctionDeclaration C p1 access accessPos of
              Inl e \<Rightarrow> Inl e
            | Inr (d, p2) \<Rightarrow> Inr (Some (DeclFunction d), p2))
         else if Token.Value (current p1) = StringValue keywordImport then
           (case parseImportDeclaration C p1 of
              Inl e \<Rightarrow> Inl e
            | Inr (d, p2) \<Rightarrow> Inr (Some (DeclImport d), p2))
         else if Token.Value (current p1) = StringValue keywordEvent then
           (case parseEventDeclaration C access accessPos p1 of
              Inl e \<Rightarrow> Inl e
            | Inr (d, p2) \<Rightarrow> Inr (Some (DeclComposite d), p2))
         else if Token.Value (current p1) = StringValue keywordPriv
            \<or> Token.Value (current p1) = StringValue keywordPub
            \<or> Token.Value (current p1) = StringValue keywordAccess then
           (if access \<noteq> AccessNotSpecified then
              Inl (Errorf ''unexpected access modifier'' [])
            else
              (let pos = Token.StartPos (current p1) in
               case parseAccess p1 of
                 Inl e \<Rightarrow> Inl e
               | Inr (access', p2) \<Rightarrow> parseDeclarationLoop C access' (Some pos) p2))
         else Inr (None, p1))
      else Inr (None, p1))"
  by pat_completeness auto
termination
  by (relation "measure (\<lambda>(C, access, accessPos, p).
                           if access = AccessNotSpecified then 1 else 0)")
     (auto dest: parseAccess_specified)

declare parseDeclarationLoop.simps [simp del]

definition parseDeclaration ::
  "('e, 't, 'prm, 'fb) collaborators \<Rightarrow> parser
     \<Rightarrow> error + (('e, 't, 'prm, 'fb) Declaration option \<times> parser)" where
  "parseDeclaration C p = parseDeclarationLoop C AccessNotSpecified None p"

text \<open>
  The loop of \<^verbatim>\<open>parseDeclarations\<close> ends only by a return or a panic, and a
  collaborating parser may return without having consumed a token: a run that never
  returns is \<open>None\<close>.
\<close>

partial_function (option) parseDeclarationsLoop ::
  "('e, 't, 'prm, 'fb) collaborators \<Rightarrow> TokenType
     \<Rightarrow> ('e, 't, 'prm, 'fb) Declaration list \<Rightarrow> parser
     \<Rightarrow> (error + (('e, 't, 'prm, 'fb) Declaration list \<times> parser)) option" where
  "parseDeclarationsLoop C endTokenType declarations p =
     (let p1 = skipSpaceAndComments p in
      if Type (current p1) = TokenSemicolon then
        parseDeclarationsLoop C endTokenType declarations (next_token p1)
      else if Type (current p1) = endTokenType \<or> Type (current p1) = TokenEOF then
        Some (Inr (declarations, p1))
      else
        (case parseDeclaration C p1 of
           Inl e \<Rightarrow> Some (Inl e)
         | Inr (None, p2) \<Rightarrow> Some (Inr (declarations, p2))
         | Inr (Some declaration, p2) \<Rightarrow>
             parseDeclarationsLoop C endTokenType (declarations @ [declaration]) p2))"

definition parseDeclarations ::
  "('e, 't, 'prm, 'fb) collaborators \<Rightarrow> parser \<Rightarrow> TokenType
     \<Rightarrow> (error + (('e, 't, 'prm, 'fb) Declaration list \<times> parser)) option" where
  "parseDeclarations C p endTokenType = parseDeclarationsLoop C endTokenType [] p"

section \<open>What the specification says, as definitions\<close>

text \<open>
  The decoding of a hexadecimal literal in the spec's words: drop the two-character
  prefix, remove the separators, put one \<^verbatim>\<open>0\<close> in front when the number of
  digits is odd, and read the digits in pairs, the first of a pair being the high
  half of the byte. The value of a digit is looked up in a table.
\<close>

definition hexDigitTable :: "(char \<times> 8 word) list" where
  "hexDigitTable =
     [(CHR ''0'', 0), (CHR ''1'', 1), (CHR ''2'', 2), (CHR ''3'', 3), (CHR ''4'', 4),
      (CHR ''5'', 5), (CHR ''6'', 6), (CHR ''7'', 7), (CHR ''8'', 8), (CHR ''9'', 9),
      (CHR ''a'', 10), (CHR ''b'', 11), (CHR ''c'', 12), (CHR ''d'', 13), (CHR ''e'', 14),
      (CHR ''f'', 15),
      (CHR ''A'', 10), (CHR ''B'', 11), (CHR ''C'', 12), (CHR ''D'', 13), (CHR ''E'', 14),
      (CHR ''F'', 15)]"

definition isHexDigit :: "char \<Rightarrow> bool" where
  "isHexDigit c = (map_of hexDigitTable c \<noteq> None)"

definition hexDigitValue :: "char \<Rightarrow> 8 word" where
  "hexDigitValue c = (case map_of hexDigitTable c of Some v \<Rightarrow> v | None \<Rightarrow> 0)"

fun decodeHexPairs :: "string \<Rightarrow> 8 word list" where
  "decodeHexPairs (hi # lo # rest) =
     (16 * hexDigitValue hi + hexDigitValue lo) # decodeHexPairs rest"
| "decodeHexPairs _ = []"

definition padToEven :: "string \<Rightarrow> string" where
  "padToEven digits = (if odd (length digits) then CHR ''0'' # digits else digits)"

definition hexLiteralBytes :: "string \<Rightarrow> 8 word list" where
  "hexLiteralBytes literal =
     decodeHexPairs (padToEven (filter (\<lambda>c. c \<noteq> CHR ''_'') (drop 2 literal)))"

text \<open>The keywords that start a declaration, and the keywords of access modifiers.\<close>

definition isAccessModifierKeyword :: "Token \<Rightarrow> bool" where
  "isAccessModifierKeyword t =
     (Type t = TokenIdentifier
      \<and> (Token.Value t = StringValue keywordPriv
         \<or> Token.Value t = StringValue keywordPub
         \<or> Token.Value t = StringValue keywordAccess))"

definition isDeclarationKeyword :: "Token \<Rightarrow> bool" where
  "isDeclarationKeyword t =
     (Type t = TokenIdentifier
      \<and> (Token.Value t = StringValue keywordLet
         \<or> Token.Value t = StringValue keywordVar
         \<or> Token.Value t = StringValue keywordFun
         \<or> Token.Value t = StringValue keywordImport
         \<or> Token.Value t = StringValue keywordEvent))"

text \<open>
  A run of the loop of \<^verbatim>\<open>parseDeclarations\<close> that hits a fatal error: started
  with the declarations accumulated so far and the cursor, the run skips semicolons
  and appends the declarations it parses, until \<^verbatim>\<open>parseDeclaration\<close> panics
  with the error.
\<close>

inductive reachesFatalError ::
  "('e, 't, 'prm, 'fb) collaborators \<Rightarrow> TokenType
     \<Rightarrow> ('e, 't, 'prm, 'fb) Declaration list \<Rightarrow> parser \<Rightarrow> error \<Rightarrow> bool"
  for C endTokenType where
    skipsSemicolon:
      "Type (current (skipSpaceAndComments p)) = TokenSemicolon
       \<Longrightarrow> reachesFatalError C endTokenType declarations
             (next_token (skipSpaceAndComments p)) e
       \<Longrightarrow> reachesFatalError C endTokenType declarations p e"
  | declarationFails:
      "Type (current (skipSpaceAndComments p)) \<notin> {TokenSemicolon, endTokenType, TokenEOF}
       \<Longrightarrow> parseDeclaration C (skipSpaceAndComments p) = Inl e
       \<Longrightarrow> reachesFatalError C endTokenType declarations p e"
  | declarationAppended:
      "Type (current (skipSpaceAndComments p)) \<notin> {TokenSemicolon, endTokenType, TokenEOF}
       \<Longrightarrow> parseDeclaration C (skipSpaceAndComments p) = Inr (Some declaration, p2)
       \<Longrightarrow> reachesFatalError C endTokenType (declarations @ [declaration]) p2 e
       \<Longrightarrow> reachesFatalError C endTokenType declarations p e"

section \<open>Example collaborators and token streams\<close>

text \<open>
  To run the parser on concrete token streams, the collaborating parsers are
  instantiated with small stand-ins: an expression and a type annotation are a
  single token, a parameter list is an empty pair of parentheses (each after any
  leading trivia), a string literal decodes to itself, and an identifier ends at its
  last character.
\<close>

definition exampleSingleToken :: "parser \<Rightarrow> error + (Token \<times> parser)" where
  "exampleSingleToken p =
     (let p1 = skipSpaceAndComments p in
      if Type (current p1) = TokenEOF then Inl (Errorf ''unexpected end of program'' [])
      else Inr (current p1, next_token p1))"

definition exampleParameterList :: "parser \<Rightarrow> error + (unit ParameterList \<times> parser)" where
  "exampleParameterList p =
     (let p0 = skipSpaceAndComments p in
      case mustOne p0 TokenParenOpen of
        Inl e \<Rightarrow> Inl e
      | Inr p1 \<Rightarrow>
          (case mustOne (skipSpaceAndComments p1) TokenParenClose of
             Inl e \<Rightarrow> Inl e
           | Inr p2 \<Rightarrow>
               Inr (\<lparr>Parameters = [],
                     ParameterList.Range =
                       \<lparr>Range.StartPos = Token.StartPos (current p0),
                        Range.EndPos =
                          Token.EndPos (current (skipSpaceAndComments p1))\<rparr>\<rparr>, p2)))"

definition exampleEndPosition :: "Identifier \<Rightarrow> Position" where
  "exampleEndPosition i =
     (let n = int (length (Identifier.Identifier i)) - 1 in
      \<lparr>Offset = Offset (Identifier.Pos i) + n,
       Line = Line (Identifier.Pos i),
       Column = Column (Identifier.Pos i) + n\<rparr>)"

definition exampleCollaborators :: "(Token, Token, unit, unit) collaborators" where
  "exampleCollaborators =
     \<lparr>parseExpression = (\<lambda>p bindingPower. exampleSingleToken p),
      lowestBindingPower = 0,
      parseTypeAnnotation = exampleSingleToken,
      parseParameterList = exampleParameterList,
      parseFunctionDeclaration =
        (\<lambda>p access accessPos. Inl (Errorf ''function declarations are not supported'' [])),
      parseStringLiteral = (\<lambda>literal. (literal, [])),
      EndPosition = exampleEndPosition\<rparr>"

text \<open>A token on line 1 that spans the columns \<open>s\<close> to \<open>e\<close>.\<close>

definition mkToken :: "TokenType \<Rightarrow> string \<Rightarrow> int \<Rightarrow> int \<Rightarrow> Token" where
  "mkToken ty v s e =
     \<lparr>Type = ty, Token.Value = StringValue v,
      Token.StartPos = \<lparr>Offset = s, Line = 1, Column = s\<rparr>,
      Token.EndPos = \<lparr>Offset = e, Line = 1, Column = e\<rparr>\<rparr>"

definition mkSpace :: "int \<Rightarrow> int \<Rightarrow> Token" where
  "mkSpace s e = (mkToken TokenSpace [] s e)\<lparr>Token.Value := OtherValue\<rparr>"

definition stream :: "Token list \<Rightarrow> parser" where
  "stream ts = \<lparr>tokens = ts, errors = []\<rparr>"

text \<open>\<^verbatim>\<open>let x 1\<close>, \<^verbatim>\<open>let x = 1\<close> and \<^verbatim>\<open>var y <-a <-b\<close>.\<close>

definition exampleLetWithoutTransfer :: parser where
  "exampleLetWithoutTransfer =
     stream [mkToken TokenIdentifier ''let'' 0 2, mkSpace 3 3,
             mkToken TokenIdentifier ''x'' 4 4, mkSpace 5 5,
             mkToken (TokenOther 0) ''1'' 6 6]"

definition exampleLetCopy :: parser where
  "exampleLetCopy =
     stream [mkToken TokenIdentifier ''let'' 0 2, mkSpace 3 3,
             mkToken TokenIdentifier ''x'' 4 4, mkSpace 5 5,
             mkToken TokenEqual ''='' 6 6, mkSpace 7 7,
             mkToken (TokenOther 0) ''1'' 8 8]"

definition exampleVarMoveMove :: parser where
  "exampleVarMoveMove =
     stream [mkToken TokenIdentifier ''var'' 0 2, mkSpace 3 3,
             mkToken TokenIdentifier ''y'' 4 4, mkSpace 5 5,
             mkToken TokenLeftArrow ''<-'' 6 7,
             mkToken TokenIdentifier ''a'' 8 8, mkSpace 9 9,
             mkToken TokenLeftArrow ''<-'' 10 11,
             mkToken TokenIdentifier ''b'' 12 12]"

text \<open>\<^verbatim>\<open>import foo\<close> followed by the end of the input.\<close>

definition mkEOF :: "int \<Rightarrow> Token" where
  "mkEOF s = (mkToken TokenEOF [] s s)\<lparr>Token.Value := OtherValue\<rparr>"

definition exampleImportFoo :: parser where
  "exampleImportFoo =
     stream [mkToken TokenIdentifier ''import'' 0 5, mkSpace 6 6,
             mkToken TokenIdentifier ''foo'' 7 9, mkEOF 10]"

text \<open>\<^verbatim>\<open>access priv\<close>, \<^verbatim>\<open>pub priv let\<close> and \<^verbatim>\<open>pub 1\<close>.\<close>

definition exampleAccessPriv :: parser where
  "exampleAccessPriv =
     stream [mkToken TokenIdentifier ''access'' 0 5, mkSpace 6 6,
             mkToken TokenIdentifier ''priv'' 7 10]"

definition examplePubPriv :: parser where
  "examplePubPriv =
     stream [mkToken TokenIdentifier ''pub'' 0 2, mkSpace 3 3,
             mkToken TokenIdentifier ''priv'' 4 7, mkSpace 8 8,
             mkToken TokenIdentifier ''let'' 9 11]"

definition examplePubNumber :: parser where
  "examplePubNumber =
     stream [mkToken TokenIdentifier ''pub'' 0 2, mkSpace 3 3,
             mkToken (TokenOther 0) ''1'' 4 4]"

text \<open>\<^verbatim>\<open>let x=1;let y\<close> and \<^verbatim>\<open>access(all) event Foo()\<close>.\<close>

definition exampleTwoLets :: parser where
  "exampleTwoLets =
     stream [mkToken TokenIdentifier ''let'' 0 2, mkSpace 3 3,
             mkToken TokenIdentifier ''x'' 4 4,
             mkToken TokenEqual ''='' 5 5,
             mkToken (TokenOther 0) ''1'' 6 6,
             mkToken TokenSemicolon '';'' 7 7,
             mkToken TokenIdentifier ''let'' 8 10, mkSpace 11 11,
             mkToken TokenIdentifier ''y'' 12 12]"

definition exampleAccessAllEvent :: parser where
  "exampleAccessAllEvent =
     stream [mkToken TokenIdentifier ''access'' 0 5, mkToken TokenParenOpen ''('' 6 6,
             mkToken TokenIdentifier ''all'' 7 9, mkToken TokenParenClose '')'' 10 10,
             mkSpace 11 11,
             mkToken TokenIdentifier ''event'' 12 16, mkSpace 17 17,
             mkToken TokenIdentifier ''Foo'' 18 20,
             mkToken TokenParenOpen ''('' 21 21, mkToken TokenParenClose '')'' 22 22]"

lemmas example_defs =
  exampleCollaborators_def exampleSingleToken_def exampleParameterList_def
  exampleEndPosition_def mkToken_def mkSpace_def mkEOF_def stream_def

lemmas cursor_defs =
  current_def next_token_def skipSpaceAndComments_def isTrivia_def
  mustOne_def report_def eofToken_def zeroPosition_def

section \<open>Properties of the cursor\<close>

lemma current_nonEOF_tokens:
  "Type (current p) \<noteq> TokenEOF \<Longrightarrow> tokens p = current p # tokens (next_token p)"
  by (cases "tokens p") (simp_all add: current_def next_token_def eofToken_def)

lemma skipSpaceAndComments_idem [simp]:
  "skipSpaceAndComments (skipSpaceAndComments p) = skipSpaceAndComments p"
  by (simp add: skipSpaceAndComments_def dropWhile_idem)

section \<open>Transfer operators map three tokens\<close>

text \<open>
  C7. \<^verbatim>\<open>parseTransfer\<close> maps the current token: \<^verbatim>\<open>=\<close> gives Copy,
  \<^verbatim>\<open><-\<close> gives Move and \<^verbatim>\<open><-!\<close> gives MoveForced, each stamped with
  the token's start position and each consuming exactly that token (the cursor
  advances once, and the token stream is the consumed token followed by what is
  left). On every other current token the result is the absent transfer, no error,
  and the cursor is returned unchanged.
\<close>

theorem parseTransfer_maps_tokens:
  "(Type (current p) = TokenEqual \<longrightarrow>
      parseTransfer p =
        (Some \<lparr>Operation = TransferOperationCopy,
               Transfer.Pos = Token.StartPos (current p)\<rparr>, next_token p)
      \<and> tokens p = current p # tokens (next_token p))
   \<and> (Type (current p) = TokenLeftArrow \<longrightarrow>
      parseTransfer p =
        (Some \<lparr>Operation = TransferOperationMove,
               Transfer.Pos = Token.StartPos (current p)\<rparr>, next_token p)
      \<and> tokens p = current p # tokens (next_token p))
   \<and> (Type (current p) = TokenLeftArrowExclamation \<longrightarrow>
      parseTransfer p =
        (Some \<lparr>Operation = TransferOperationMoveForced,
               Transfer.Pos = Token.StartPos (current p)\<rparr>, next_token p)
      \<and> tokens p = current p # tokens (next_token p))
   \<and> (Type (current p) \<notin> {TokenEqual, TokenLeftArrow, TokenLeftArrowExclamation} \<longrightarrow>
      parseTransfer p = (None, p))"
proof -
  have other: "parseTransfer p = (None, p)"
    if "Type (current p) \<notin> {TokenEqual, TokenLeftArrow, TokenLeftArrowExclamation}"
    using that by (cases "Type (current p)") (simp_all add: parseTransfer_def)
  show ?thesis
    using other by (auto simp: parseTransfer_def current_nonEOF_tokens)
qed

theorem parseTransfer_maps_tokens_witness:
  "parseTransfer (stream [mkToken TokenEqual ''='' 0 0, mkToken TokenIdentifier ''x'' 1 1]) =
     (Some \<lparr>Operation = TransferOperationCopy,
            Transfer.Pos = \<lparr>Offset = 0, Line = 1, Column = 0\<rparr>\<rparr>,
      stream [mkToken TokenIdentifier ''x'' 1 1])
   \<and> parseTransfer
       (stream [mkToken TokenLeftArrow ''<-'' 0 1, mkToken TokenIdentifier ''x'' 2 2]) =
     (Some \<lparr>Operation = TransferOperationMove,
            Transfer.Pos = \<lparr>Offset = 0, Line = 1, Column = 0\<rparr>\<rparr>,
      stream [mkToken TokenIdentifier ''x'' 2 2])
   \<and> parseTransfer (stream [mkToken TokenLeftArrowExclamation ''<-!'' 0 2]) =
     (Some \<lparr>Operation = TransferOperationMoveForced,
            Transfer.Pos = \<lparr>Offset = 0, Line = 1, Column = 0\<rparr>\<rparr>,
      stream [])
   \<and> parseTransfer (stream [mkToken TokenIdentifier ''x'' 0 0]) =
     (None, stream [mkToken TokenIdentifier ''x'' 0 0])"
  using
    parseTransfer_maps_tokens
      [of "stream [mkToken TokenEqual ''='' 0 0, mkToken TokenIdentifier ''x'' 1 1]"]
    parseTransfer_maps_tokens
      [of "stream [mkToken TokenLeftArrow ''<-'' 0 1, mkToken TokenIdentifier ''x'' 2 2]"]
    parseTransfer_maps_tokens [of "stream [mkToken TokenLeftArrowExclamation ''<-!'' 0 2]"]
    parseTransfer_maps_tokens [of "stream [mkToken TokenIdentifier ''x'' 0 0]"]
  by (simp add: stream_def mkToken_def current_def next_token_def)

section \<open>Variable declarations: the transfer and the second pair\<close>

text \<open>Three runs of the variable-declaration parser on the example streams.\<close>

lemma exampleLetWithoutTransfer_run:
  "parseVariableDeclaration exampleCollaborators AccessNotSpecified None
     exampleLetWithoutTransfer = Inl (Errorf ''expected transfer'' [])"
  by (simp add: parseVariableDeclaration_def exampleLetWithoutTransfer_def example_defs
        cursor_defs tokenToIdentifier_def parseTransfer_def keyword_defs)

lemma exampleLetCopy_run:
  "parseVariableDeclaration exampleCollaborators AccessNotSpecified None exampleLetCopy =
     Inr (\<lparr>VariableDeclaration.Access = AccessNotSpecified, IsConstant = True,
           VariableDeclaration.Identifier =
             \<lparr>Identifier.Identifier = ''x'',
              Identifier.Pos = \<lparr>Offset = 4, Line = 1, Column = 4\<rparr>\<rparr>,
           TypeAnnotation = None,
           VariableDeclaration.Value = mkToken (TokenOther 0) ''1'' 8 8,
           Transfer = Some \<lparr>Operation = TransferOperationCopy,
                            Transfer.Pos = \<lparr>Offset = 6, Line = 1, Column = 6\<rparr>\<rparr>,
           VariableDeclaration.StartPos = \<lparr>Offset = 0, Line = 1, Column = 0\<rparr>,
           SecondTransfer = None, SecondValue = None\<rparr>, stream [])"
  by (simp add: parseVariableDeclaration_def exampleLetCopy_def example_defs cursor_defs
        tokenToIdentifier_def parseTransfer_def keyword_defs)

lemma exampleVarMoveMove_run:
  "parseVariableDeclaration exampleCollaborators AccessNotSpecified None exampleVarMoveMove =
     Inr (\<lparr>VariableDeclaration.Access = AccessNotSpecified, IsConstant = False,
           VariableDeclaration.Identifier =
             \<lparr>Identifier.Identifier = ''y'',
              Identifier.Pos = \<lparr>Offset = 4, Line = 1, Column = 4\<rparr>\<rparr>,
           TypeAnnotation = None,
           VariableDeclaration.Value = mkToken TokenIdentifier ''a'' 8 8,
           Transfer = Some \<lparr>Operation = TransferOperationMove,
                            Transfer.Pos = \<lparr>Offset = 6, Line = 1, Column = 6\<rparr>\<rparr>,
           VariableDeclaration.StartPos = \<lparr>Offset = 0, Line = 1, Column = 0\<rparr>,
           SecondTransfer = Some \<lparr>Operation = TransferOperationMove,
                                  Transfer.Pos = \<lparr>Offset = 10, Line = 1, Column = 10\<rparr>\<rparr>,
           SecondValue = Some (mkToken TokenIdentifier ''b'' 12 12)\<rparr>, stream [])"
  by (simp add: parseVariableDeclaration_def exampleVarMoveMove_def example_defs cursor_defs
        tokenToIdentifier_def parseTransfer_def keyword_defs)

text \<open>
  C8. In \<^verbatim>\<open>parseVariableDeclaration\<close> a transfer is mandatory after the
  identifier and the optional type annotation. When the keyword is followed by an
  identifier, then (if a colon follows) by a type annotation that the collaborating
  parser accepts, and the token reached after that is none of \<^verbatim>\<open>=\<close>,
  \<^verbatim>\<open><-\<close>, \<^verbatim>\<open><-!\<close>, the parser panics with "expected transfer". And
  every declaration that the parser returns has a transfer that is present.
\<close>

theorem parseVariableDeclaration_transfer_mandatory:
  "(\<forall>name p3.
      Type (current (skipSpaceAndComments (next_token p))) = TokenIdentifier
      \<and> Token.Value (current (skipSpaceAndComments (next_token p))) = StringValue name
      \<and> (let p2 = skipSpaceAndComments (next_token (skipSpaceAndComments (next_token p))) in
          if Type (current p2) = TokenColon
          then \<exists>ta pa. parseTypeAnnotation C (skipSpaceAndComments (next_token p2)) = Inr (ta, pa)
                 \<and> p3 = skipSpaceAndComments pa
          else p3 = skipSpaceAndComments p2)
      \<and> Type (current p3) \<notin> {TokenEqual, TokenLeftArrow, TokenLeftArrowExclamation}
      \<longrightarrow> parseVariableDeclaration C access accessPos p = Inl (Errorf ''expected transfer'' []))
   \<and> (\<forall>d p'. parseVariableDeclaration C access accessPos p = Inr (d, p')
        \<longrightarrow> Transfer d \<noteq> None)"
proof (intro conjI allI impI)
  fix name p3
  assume h: "Type (current (skipSpaceAndComments (next_token p))) = TokenIdentifier
      \<and> Token.Value (current (skipSpaceAndComments (next_token p))) = StringValue name
      \<and> (let p2 = skipSpaceAndComments (next_token (skipSpaceAndComments (next_token p))) in
          if Type (current p2) = TokenColon
          then \<exists>ta pa. parseTypeAnnotation C (skipSpaceAndComments (next_token p2)) = Inr (ta, pa)
                 \<and> p3 = skipSpaceAndComments pa
          else p3 = skipSpaceAndComments p2)
      \<and> Type (current p3) \<notin> {TokenEqual, TokenLeftArrow, TokenLeftArrowExclamation}"
  then have absent: "parseTransfer p3 = (None, p3)"
    by (cases "Type (current p3)") (simp_all add: parseTransfer_def)
  from h absent show "parseVariableDeclaration C access accessPos p = Inl (Errorf ''expected transfer'' [])"
    by (auto simp: parseVariableDeclaration_def tokenToIdentifier_def Let_def split: if_splits)
next
  fix d p'
  assume "parseVariableDeclaration C access accessPos p = Inr (d, p')"
  then show "Transfer d \<noteq> None"
    by (auto simp: parseVariableDeclaration_def Let_def split: if_splits sum.splits prod.splits)
qed

theorem parseVariableDeclaration_transfer_mandatory_witness:
  "parseVariableDeclaration exampleCollaborators AccessNotSpecified None
     exampleLetWithoutTransfer = Inl (Errorf ''expected transfer'' [])
   \<and> Transfer (fst (projr (parseVariableDeclaration exampleCollaborators AccessNotSpecified
                              None exampleLetCopy))) \<noteq> None"
proof
  have "Type (current (skipSpaceAndComments (next_token exampleLetWithoutTransfer)))
          = TokenIdentifier
      \<and> Token.Value (current (skipSpaceAndComments (next_token exampleLetWithoutTransfer)))
          = StringValue ''x''
      \<and> (let p2 = skipSpaceAndComments (next_token (skipSpaceAndComments
                     (next_token exampleLetWithoutTransfer))) in
          if Type (current p2) = TokenColon
          then \<exists>ta pa. parseTypeAnnotation exampleCollaborators
                          (skipSpaceAndComments (next_token p2)) = Inr (ta, pa)
                 \<and> stream [mkToken (TokenOther 0) ''1'' 6 6] = skipSpaceAndComments pa
          else stream [mkToken (TokenOther 0) ''1'' 6 6] = skipSpaceAndComments p2)
      \<and> Type (current (stream [mkToken (TokenOther 0) ''1'' 6 6]))
          \<notin> {TokenEqual, TokenLeftArrow, TokenLeftArrowExclamation}"
    by (simp add: exampleLetWithoutTransfer_def example_defs cursor_defs)
  with parseVariableDeclaration_transfer_mandatory
         [of exampleLetWithoutTransfer exampleCollaborators AccessNotSpecified None]
  show "parseVariableDeclaration exampleCollaborators AccessNotSpecified None
          exampleLetWithoutTransfer = Inl (Errorf ''expected transfer'' [])"
    by blast
next
  from parseVariableDeclaration_transfer_mandatory
         [of exampleLetCopy exampleCollaborators AccessNotSpecified None]
       exampleLetCopy_run
  show "Transfer (fst (projr (parseVariableDeclaration exampleCollaborators
          AccessNotSpecified None exampleLetCopy))) \<noteq> None"
    by simp
qed

text \<open>
  C9. Every variable declaration that the parser returns has its second transfer and
  its second value both present or both absent. The second transfer is what
  \<^verbatim>\<open>parseTransfer\<close> finds after the first expression (and the trivia behind
  it): when it finds none, no second expression is parsed and the parser returns
  there; when it finds one, the second value is the expression parsed right after
  that transfer.
\<close>

theorem parseVariableDeclaration_second_pair:
  assumes "parseVariableDeclaration C access accessPos p = Inr (d, p')"
  shows "(SecondTransfer d = None \<longleftrightarrow> SecondValue d = None)
     \<and> (\<exists>p3 p4 p5.
          parseTransfer p3 = (Transfer d, p4)
          \<and> parseExpression C p4 (lowestBindingPower C) = Inr (VariableDeclaration.Value d, p5)
          \<and> SecondTransfer d = fst (parseTransfer (skipSpaceAndComments p5))
          \<and> (case SecondTransfer d of
                None \<Rightarrow> SecondValue d = None \<and> p' = skipSpaceAndComments p5
              | Some t \<Rightarrow>
                  \<exists>v. SecondValue d = Some v
                    \<and> parseExpression C (snd (parseTransfer (skipSpaceAndComments p5)))
                          (lowestBindingPower C) = Inr (v, p')))"
proof -
  obtain p3 transfer p4 val p5 secondTransfer p6 secondValue where
    t1: "parseTransfer p3 = (transfer, p4)" and
    e1: "parseExpression C p4 (lowestBindingPower C) = Inr (val, p5)" and
    t2: "parseTransfer (skipSpaceAndComments p5) = (secondTransfer, p6)" and
    e2: "(if secondTransfer \<noteq> None
          then (case parseExpression C p6 (lowestBindingPower C) of
                  Inl e \<Rightarrow> Inl e | Inr (v, p7) \<Rightarrow> Inr (Some v, p7))
          else Inr (None, p6)) = Inr (secondValue, p')" and
    d: "Transfer d = transfer" "VariableDeclaration.Value d = val"
       "SecondTransfer d = secondTransfer" "SecondValue d = secondValue"
    using assms
    by (auto simp: parseVariableDeclaration_def Let_def
             split: if_splits sum.splits prod.splits)
  have absent: "parseTransfer q = (None, q')  \<Longrightarrow> q' = q" for q q'
    by (auto simp: parseTransfer_def Let_def split: if_splits)
  show ?thesis
  proof (cases secondTransfer)
    case None
    with e2 t2 absent have "secondValue = None" "p' = skipSpaceAndComments p5"
      by auto
    with None t1 e1 t2 d show ?thesis
      by (intro conjI exI [of _ p3] exI [of _ p4] exI [of _ p5]) simp_all
  next
    case (Some t)
    with e2 obtain v where "secondValue = Some v"
      "parseExpression C p6 (lowestBindingPower C) = Inr (v, p')"
      by (auto split: sum.splits)
    with Some t1 e1 t2 d show ?thesis
      by (intro conjI exI [of _ p3] exI [of _ p4] exI [of _ p5]) simp_all
  qed
qed

theorem parseVariableDeclaration_second_pair_witness:
  "SecondTransfer (fst (projr (parseVariableDeclaration exampleCollaborators
      AccessNotSpecified None exampleLetCopy))) = None
   \<and> SecondValue (fst (projr (parseVariableDeclaration exampleCollaborators
      AccessNotSpecified None exampleLetCopy))) = None
   \<and> SecondTransfer (fst (projr (parseVariableDeclaration exampleCollaborators
      AccessNotSpecified None exampleVarMoveMove))) \<noteq> None
   \<and> SecondValue (fst (projr (parseVariableDeclaration exampleCollaborators
      AccessNotSpecified None exampleVarMoveMove))) \<noteq> None"
  using parseVariableDeclaration_second_pair [OF exampleLetCopy_run]
        parseVariableDeclaration_second_pair [OF exampleVarMoveMove_run]
  by (simp add: exampleLetCopy_run exampleVarMoveMove_run)

section \<open>Import declarations: a single identifier before the end of the input\<close>

text \<open>
  C2. When \<^verbatim>\<open>import\<close> is followed by one identifier and then by the end of
  the input, \<^verbatim>\<open>parseImportDeclaration\<close> returns normally. The declaration it
  returns has no identifiers and no location; its range starts where the
  \<^verbatim>\<open>import\<close> keyword starts and ends where the identifier ends, and its
  location position is the start of the identifier. The cursor is left at the end of
  the input.
\<close>

theorem parseImportDeclaration_identifier_then_end:
  assumes "Type (current (skipSpaceAndComments (next_token p))) = TokenIdentifier"
    and "Token.Value (current (skipSpaceAndComments (next_token p))) = StringValue name"
    and "Type (current (skipSpaceAndComments (next_token
            (skipSpaceAndComments (next_token p))))) = TokenEOF"
  shows "parseImportDeclaration C p =
     Inr (\<lparr>Identifiers = [],
           Location = None,
           ImportDeclaration.Range =
             \<lparr>Range.StartPos = Token.StartPos (current p),
              Range.EndPos =
                EndPosition C
                  \<lparr>Identifier.Identifier = name,
                   Identifier.Pos =
                     Token.StartPos (current (skipSpaceAndComments (next_token p)))\<rparr>\<rparr>,
           LocationPos = Token.StartPos (current (skipSpaceAndComments (next_token p)))\<rparr>,
          skipSpaceAndComments (next_token (skipSpaceAndComments (next_token p))))"
  using assms
  by (simp add: parseImportDeclaration_def tokenToIdentifier_def setIdentifierLocation_def
        Let_def)

theorem parseImportDeclaration_identifier_then_end_witness:
  "parseImportDeclaration exampleCollaborators exampleImportFoo =
     Inr (\<lparr>Identifiers = [],
           Location = None,
           ImportDeclaration.Range =
             \<lparr>Range.StartPos = \<lparr>Offset = 0, Line = 1, Column = 0\<rparr>,
              Range.EndPos = \<lparr>Offset = 9, Line = 1, Column = 9\<rparr>\<rparr>,
           LocationPos = \<lparr>Offset = 7, Line = 1, Column = 7\<rparr>\<rparr>,
          stream [mkEOF 10])"
  using parseImportDeclaration_identifier_then_end
          [of exampleImportFoo "''foo''" exampleCollaborators]
  by (simp add: exampleImportFoo_def example_defs mkEOF_def cursor_defs)

text \<open>
  C1, as stated, fails: for \<^verbatim>\<open>import foo\<close> the location of the declaration is
  absent, so it is not derived from the identifier.
\<close>

theorem import_identifier_location_absent_counterexample:
  "map_sum id (\<lambda>(d, p). (Identifiers d, Location d))
     (parseImportDeclaration exampleCollaborators exampleImportFoo) = Inr ([], None)"
  by (simp add: parseImportDeclaration_def tokenToIdentifier_def setIdentifierLocation_def
        exampleImportFoo_def example_defs mkEOF_def cursor_defs)

text \<open>
  C1, amended. When \<^verbatim>\<open>import\<close> is followed by one identifier and then by the
  end of the input, the identifier is taken as the place of the location only: the
  declaration has no identifiers, its location is absent (an identifier location is
  not yet created), its location position is the position of the identifier and its
  range ends at the end position of the identifier.
\<close>

theorem parseImportDeclaration_identifier_location_positions:
  assumes "Type (current (skipSpaceAndComments (next_token p))) = TokenIdentifier"
    and "tokenToIdentifier (current (skipSpaceAndComments (next_token p))) = Inr identifier"
    and "Type (current (skipSpaceAndComments (next_token
            (skipSpaceAndComments (next_token p))))) = TokenEOF"
  shows "\<exists>d p'. parseImportDeclaration C p = Inr (d, p')
           \<and> Identifiers d = []
           \<and> Location d = None
           \<and> LocationPos d = Identifier.Pos identifier
           \<and> Range.EndPos (ImportDeclaration.Range d) = EndPosition C identifier"
  using assms
  by (simp add: parseImportDeclaration_def setIdentifierLocation_def Let_def)

theorem parseImportDeclaration_identifier_location_positions_witness:
  "Identifiers (fst (projr (parseImportDeclaration exampleCollaborators exampleImportFoo))) = []
   \<and> Location (fst (projr (parseImportDeclaration exampleCollaborators exampleImportFoo)))
       = None
   \<and> LocationPos (fst (projr (parseImportDeclaration exampleCollaborators exampleImportFoo)))
       = \<lparr>Offset = 7, Line = 1, Column = 7\<rparr>"
  using parseImportDeclaration_identifier_location_positions
          [of exampleImportFoo
              "\<lparr>Identifier.Identifier = ''foo'',
                Identifier.Pos = \<lparr>Offset = 7, Line = 1, Column = 7\<rparr>\<rparr>"
              exampleCollaborators]
  by (auto simp: exampleImportFoo_def example_defs mkEOF_def cursor_defs tokenToIdentifier_def)

section \<open>Hexadecimal locations decode to bytes\<close>

lemma fromHexChar_table:
  "isHexDigit c \<Longrightarrow> fromHexChar c = Some (hexDigitValue c)"
  by (auto simp: isHexDigit_def hexDigitValue_def hexDigitTable_def fromHexChar_def
           split: if_splits)

lemma hexDigitValue_less: "isHexDigit c \<Longrightarrow> hexDigitValue c < 16"
  by (auto simp: isHexDigit_def hexDigitValue_def hexDigitTable_def split: if_splits)

lemma nibbles:
  assumes "b < 16"
  shows "push_bit 4 a OR b = 16 * a + (b :: 8 word)"
proof -
  have b: "take_bit 4 b = b"
    using less_mask_eq [of b 4] assms by (simp add: take_bit_eq_mask)
  have "push_bit 4 a AND take_bit 4 b = 0"
    by (auto simp: bit_eq_iff bit_simps)
  with b have "push_bit 4 a + b = push_bit 4 a OR b"
    by (simp add: disjunctive_add_eq_or)
  then show ?thesis
    by (simp add: push_bit_eq_mult mult.commute)
qed

lemma drop_two_digits:
  assumes "Suc (2 * i) < length src"
  shows "drop (2 * i) src = src ! (2 * i) # src ! Suc (2 * i) # drop (2 * Suc i) src"
proof -
  from assms have "drop (2 * i) src = src ! (2 * i) # drop (Suc (2 * i)) src"
    by (simp add: Cons_nth_drop_Suc)
  also from assms have "drop (Suc (2 * i)) src = src ! Suc (2 * i) # drop (Suc (Suc (2 * i))) src"
    by (simp add: Cons_nth_drop_Suc)
  finally show ?thesis by simp
qed

lemma hexDecodeLoop_pairs:
  assumes "\<forall>c \<in> set src. isHexDigit c" and "even (length src)"
    and "length dst = length src div 2" and "j = 2 * i + 1" and "i \<le> length dst"
  shows "hexDecodeLoop dst src i j = Inr (take i dst @ decodeHexPairs (drop (2 * i) src))"
  using assms
proof (induction dst src i j rule: hexDecodeLoop.induct)
  case (1 dst src i j)
  show ?case
  proof (cases "j < length src")
    case True
    with "1.prems" have lt: "Suc (2 * i) < length src" by simp
    with "1.prems" have i: "i < length dst" by presburger
    from lt "1.prems" have hi: "isHexDigit (src ! (2 * i))" and lo: "isHexDigit (src ! Suc (2 * i))"
      by simp_all
    let ?v = "push_bit 4 (hexDigitValue (src ! (2 * i))) OR hexDigitValue (src ! Suc (2 * i))"
    define hi where "hi = hexDigitValue (src ! (2 * i))"
    define lo where "lo = hexDigitValue (src ! Suc (2 * i))"
    have digits: "fromHexChar (src ! (2 * i)) = Some hi" "fromHexChar (src ! Suc (2 * i)) = Some lo"
      using hi lo by (simp_all add: fromHexChar_table hi_def lo_def)
    have j: "j - 1 = 2 * i" "j = Suc (2 * i)"
      using "1.prems"(4) by simp_all
    have v: "push_bit 4 hi OR lo = 16 * hi + lo"
      using lo by (simp add: nibbles hexDigitValue_less lo_def)
    have step: "hexDecodeLoop dst src i j =
                  hexDecodeLoop (dst[i := 16 * hi + lo]) src (i + 1) (j + 2)"
      using True i digits j by (subst hexDecodeLoop.simps) (simp add: v)
    have "hexDecodeLoop (dst[i := 16 * hi + lo]) src (i + 1) (j + 2) =
            Inr (take (i + 1) (dst[i := 16 * hi + lo])
                 @ decodeHexPairs (drop (2 * (i + 1)) src))"
      unfolding v [symmetric]
    proof (rule "1.IH" [of hi lo])
      show "j < length src" by (rule True)
      show "fromHexChar (src ! (j - 1)) = Some hi" using digits j by simp
      show "fromHexChar (src ! j) = Some lo" using digits j by simp
      show "i < length dst" by (rule i)
      show "\<forall>c\<in>set src. isHexDigit c" by (rule "1.prems"(1))
      show "even (length src)" by (rule "1.prems"(2))
      show "length (dst[i := push_bit 4 hi OR lo]) = length src div 2"
        using "1.prems"(3) by simp
      show "j + 2 = 2 * (i + 1) + 1" using j by simp
      show "i + 1 \<le> length (dst[i := push_bit 4 hi OR lo])" using i by simp
    qed
    moreover have "take (i + 1) (dst[i := 16 * hi + lo]) = take i dst @ [16 * hi + lo]"
      using i by (simp add: take_Suc_conv_app_nth)
    moreover have "decodeHexPairs (drop (2 * i) src) =
        (16 * hi + lo) # decodeHexPairs (drop (2 * (i + 1)) src)"
      by (subst drop_two_digits [OF lt]) (simp add: hi_def lo_def)
    ultimately show ?thesis
      using step by (simp only: append_Cons append_Nil append_assoc)
  next
    case False
    with "1.prems" have "length src \<le> 2 * i" by presburger
    moreover from this "1.prems" have "length dst \<le> i" by simp
    ultimately show ?thesis
      using False "1.prems" by (subst hexDecodeLoop.simps) simp
  qed
qed

lemma hexDecode_pairs:
  assumes "\<forall>c \<in> set src. isHexDigit c" and "even (length src)"
  shows "hexDecode (replicate (DecodedLen (length src)) 0) src = Inr (decodeHexPairs src)"
  using hexDecodeLoop_pairs [of src "replicate (length src div 2) 0" 1 0] assms
  by (simp add: hexDecode_def DecodedLen_def)

text \<open>
  C3. For a hexadecimal literal (a two-character prefix followed by hexadecimal
  digits and separators), \<^verbatim>\<open>parseHexadecimalLocation\<close> returns the bytes that
  the spec describes: the prefix dropped, the separators removed, one \<^verbatim>\<open>0\<close>
  put in front of an odd number of digits, the digits decoded in pairs. The location
  parser stores exactly these bytes as the address location. In particular
  \<^verbatim>\<open>0x1\<close> gives the byte 01 and \<^verbatim>\<open>0xA_B\<close> gives the byte AB.
\<close>

theorem parseHexadecimalLocation_decodes:
  assumes "2 \<le> length literal"
    and "\<forall>c \<in> set (drop 2 literal). c = CHR ''_'' \<or> isHexDigit c"
  shows "parseHexadecimalLocation literal = Inr (hexLiteralBytes literal)
    \<and> (Type (current p) = TokenHexadecimalLiteral
         \<and> Token.Value (current p) = StringValue literal
       \<longrightarrow> parseStringOrAddressLocation C st p =
             Inr (st\<lparr>locationPos := Token.StartPos (current p),
                     endPos := Token.EndPos (current p),
                     location := Some (AddressLocation (hexLiteralBytes literal))\<rparr>,
                  next_token p))"
proof -
  let ?digits = "filter (\<lambda>c. c \<noteq> CHR ''_'') (drop 2 literal)"
  have zero: "isHexDigit CHR ''0''"
    by (simp add: isHexDigit_def hexDigitTable_def)
  have digits: "\<forall>c \<in> set (padToEven ?digits). isHexDigit c"
    using assms(2) zero by (auto simp: padToEven_def)
  have even: "even (length (padToEven ?digits))"
    by (simp add: padToEven_def)
  have "parseHexadecimalLocation literal =
          hexDecode (replicate (DecodedLen (length (padToEven ?digits))) 0) (padToEven ?digits)"
    using assms(1)
    by (simp add: parseHexadecimalLocation_def padToEven_def Let_def odd_iff_mod_2_eq_one)
  with hexDecode_pairs [OF digits even]
  have decoded: "parseHexadecimalLocation literal = Inr (hexLiteralBytes literal)"
    by (simp add: hexLiteralBytes_def)
  then show ?thesis
    by (simp add: parseStringOrAddressLocation_def)
qed

theorem parseHexadecimalLocation_decodes_witness:
  "parseHexadecimalLocation ''0x1'' = Inr [0x01]
   \<and> parseHexadecimalLocation ''0xA_B'' = Inr [0xAB]
   \<and> parseStringOrAddressLocation exampleCollaborators
         \<lparr>identifiers = [], location = None,
          locationPos = zeroPosition, endPos = zeroPosition\<rparr>
         (stream [mkToken TokenHexadecimalLiteral ''0xA_B'' 7 11]) =
       Inr (\<lparr>identifiers = [], location = Some (AddressLocation [0xAB]),
             locationPos = \<lparr>Offset = 7, Line = 1, Column = 7\<rparr>,
             endPos = \<lparr>Offset = 11, Line = 1, Column = 11\<rparr>\<rparr>, stream [])"
proof -
  have bytes: "hexLiteralBytes ''0x1'' = [0x01]" "hexLiteralBytes ''0xA_B'' = [0xAB]"
    by (simp_all add: hexLiteralBytes_def padToEven_def hexDigitValue_def hexDigitTable_def)
  have digits: "\<forall>c \<in> set (drop 2 ''0x1''). c = CHR ''_'' \<or> isHexDigit c"
    "\<forall>c \<in> set (drop 2 ''0xA_B''). c = CHR ''_'' \<or> isHexDigit c"
    by (simp_all add: isHexDigit_def hexDigitTable_def)
  have len: "2 \<le> length ''0x1''" "2 \<le> length ''0xA_B''"
    by simp_all
  show ?thesis
    using parseHexadecimalLocation_decodes
            [OF len(1) digits(1),
             of "stream [mkToken TokenHexadecimalLiteral ''0xA_B'' 7 11]"
                exampleCollaborators
                "\<lparr>identifiers = [], location = None,
                  locationPos = zeroPosition, endPos = zeroPosition\<rparr>"]
          parseHexadecimalLocation_decodes
            [OF len(2) digits(2),
             of "stream [mkToken TokenHexadecimalLiteral ''0xA_B'' 7 11]"
                exampleCollaborators
                "\<lparr>identifiers = [], location = None,
                  locationPos = zeroPosition, endPos = zeroPosition\<rparr>"]
    by (simp add: bytes stream_def mkToken_def current_def next_token_def)
qed

section \<open>The dispatcher: access modifiers\<close>

text \<open>
  C6, as stated, fails: in \<^verbatim>\<open>access priv\<close> two access-modifier keywords follow
  each other, and the parser panics because the parenthesis after \<^verbatim>\<open>access\<close>
  is missing, not with "unexpected access modifier".
\<close>

theorem second_access_modifier_counterexample:
  "parseDeclaration exampleCollaborators exampleAccessPriv =
     Inl (Errorf ''expected token %s'' [ArgTokenType TokenParenOpen])
   \<and> parseDeclaration exampleCollaborators exampleAccessPriv \<noteq>
     Inl (Errorf ''unexpected access modifier'' [])"
  by (simp add: parseDeclaration_def parseDeclarationLoop.simps parseAccess_def
        exampleAccessPriv_def example_defs cursor_defs keyword_defs)

text \<open>
  C6, amended. When the first access modifier has been parsed as a whole
  (\<^verbatim>\<open>parseAccess\<close> returns) and the next token after trivia is again an
  access-modifier keyword, \<^verbatim>\<open>parseDeclaration\<close> panics with
  "unexpected access modifier".
\<close>

theorem parseDeclaration_second_access_modifier:
  assumes "isAccessModifierKeyword (current (skipSpaceAndComments p))"
    and "parseAccess (skipSpaceAndComments p) = Inr (access, p1)"
    and "isAccessModifierKeyword (current (skipSpaceAndComments p1))"
  shows "parseDeclaration C p = Inl (Errorf ''unexpected access modifier'' [])"
proof -
  have second: "parseDeclarationLoop C access pos p1 =
                  Inl (Errorf ''unexpected access modifier'' [])" for pos
    using assms(3) parseAccess_specified [OF assms(2)]
    by (subst parseDeclarationLoop.simps)
       (auto simp: isAccessModifierKeyword_def keyword_defs Let_def)
  show ?thesis
    unfolding parseDeclaration_def
    using assms(1,2)
    by (subst parseDeclarationLoop.simps)
       (auto simp: isAccessModifierKeyword_def keyword_defs Let_def second)
qed

theorem parseDeclaration_second_access_modifier_witness:
  "parseDeclaration exampleCollaborators examplePubPriv =
     Inl (Errorf ''unexpected access modifier'' [])"
proof -
  have "isAccessModifierKeyword (current (skipSpaceAndComments examplePubPriv))"
    by (simp add: isAccessModifierKeyword_def examplePubPriv_def example_defs cursor_defs
          keyword_defs)
  moreover have "parseAccess (skipSpaceAndComments examplePubPriv) =
      Inr (AccessPublic, stream [mkToken TokenIdentifier ''priv'' 4 7, mkSpace 8 8,
                                 mkToken TokenIdentifier ''let'' 9 11])"
    by (simp add: parseAccess_def examplePubPriv_def example_defs cursor_defs keyword_defs)
  moreover have "isAccessModifierKeyword (current (skipSpaceAndComments
      (stream [mkToken TokenIdentifier ''priv'' 4 7, mkSpace 8 8,
               mkToken TokenIdentifier ''let'' 9 11])))"
    by (simp add: isAccessModifierKeyword_def example_defs cursor_defs keyword_defs)
  ultimately show ?thesis
    by (rule parseDeclaration_second_access_modifier)
qed

section \<open>The dispatcher: the declaration list\<close>

lemma parseDeclarationLoop_None:
  assumes "parseDeclarationLoop C access accessPos p = Inr (None, p2)"
  shows "\<not> isDeclarationKeyword (current p2) \<and> \<not> isAccessModifierKeyword (current p2)
     \<and> (p2 = skipSpaceAndComments p
        \<or> (\<exists>access' p1. isAccessModifierKeyword (current (skipSpaceAndComments p))
              \<and> parseAccess (skipSpaceAndComments p) = Inr (access', p1)
              \<and> p2 = skipSpaceAndComments p1))"
proof (cases "isAccessModifierKeyword (current (skipSpaceAndComments p))")
  case False
  with assms show ?thesis
    by (subst (asm) parseDeclarationLoop.simps [of C access accessPos p])
       (auto simp: Let_def isAccessModifierKeyword_def isDeclarationKeyword_def
             split: if_splits sum.splits)
next
  case True
  with assms have "\<exists>access' p1. parseAccess (skipSpaceAndComments p) = Inr (access', p1)
      \<and> parseDeclarationLoop C access'
            (Some (Token.StartPos (current (skipSpaceAndComments p)))) p1 = Inr (None, p2)"
    by (subst (asm) parseDeclarationLoop.simps [of C access accessPos p])
       (auto simp: Let_def isAccessModifierKeyword_def keyword_defs
             split: if_splits sum.splits)
  then obtain access' p1 where
    a: "parseAccess (skipSpaceAndComments p) = Inr (access', p1)" and
    r: "parseDeclarationLoop C access'
          (Some (Token.StartPos (current (skipSpaceAndComments p)))) p1 = Inr (None, p2)"
    by blast
  from a have "access' \<noteq> AccessNotSpecified"
    by (rule parseAccess_specified)
  with r have "p2 = skipSpaceAndComments p1
      \<and> \<not> isDeclarationKeyword (current p2) \<and> \<not> isAccessModifierKeyword (current p2)"
    by (subst (asm) parseDeclarationLoop.simps)
       (auto simp: Let_def isAccessModifierKeyword_def isDeclarationKeyword_def
             split: if_splits sum.splits)
  with True a show ?thesis by blast
qed

text \<open>
  C4. When the loop of \<^verbatim>\<open>parseDeclarations\<close> calls \<^verbatim>\<open>parseDeclaration\<close>
  and gets no declaration, it returns at once: the result is the list accumulated so
  far together with the very cursor that \<^verbatim>\<open>parseDeclaration\<close> left, so nothing
  more is consumed. At that cursor the current token is neither a declaration keyword
  nor an access-modifier keyword, and the cursor is either the one the loop started
  the call with, or the one behind an access modifier that was consumed on the way.
\<close>

theorem parseDeclarations_stops_on_no_declaration:
  assumes "Type (current (skipSpaceAndComments p)) \<notin> {TokenSemicolon, endTokenType, TokenEOF}"
    and "parseDeclaration C (skipSpaceAndComments p) = Inr (None, p2)"
  shows "parseDeclarationsLoop C endTokenType declarations p = Some (Inr (declarations, p2))
     \<and> \<not> isDeclarationKeyword (current p2) \<and> \<not> isAccessModifierKeyword (current p2)
     \<and> (p2 = skipSpaceAndComments p
        \<or> (\<exists>access p1. isAccessModifierKeyword (current (skipSpaceAndComments p))
              \<and> parseAccess (skipSpaceAndComments p) = Inr (access, p1)
              \<and> p2 = skipSpaceAndComments p1))"
proof -
  have "parseDeclarationsLoop C endTokenType declarations p = Some (Inr (declarations, p2))"
    using assms by (subst parseDeclarationsLoop.simps) (simp add: Let_def)
  moreover note parseDeclarationLoop_None [OF assms(2) [unfolded parseDeclaration_def]]
  ultimately show ?thesis by simp
qed

theorem parseDeclarations_stops_on_no_declaration_witness:
  "parseDeclarations exampleCollaborators examplePubNumber TokenEOF =
     Some (Inr ([], stream [mkToken (TokenOther 0) ''1'' 4 4]))"
proof -
  have "Type (current (skipSpaceAndComments examplePubNumber))
          \<notin> {TokenSemicolon, TokenEOF, TokenEOF}"
    by (simp add: examplePubNumber_def example_defs cursor_defs)
  moreover have "parseDeclaration exampleCollaborators (skipSpaceAndComments examplePubNumber) =
      Inr (None, stream [mkToken (TokenOther 0) ''1'' 4 4])"
    by (simp add: parseDeclaration_def parseDeclarationLoop.simps parseAccess_def
          examplePubNumber_def example_defs cursor_defs keyword_defs)
  ultimately show ?thesis
    using parseDeclarations_stops_on_no_declaration
            [of examplePubNumber TokenEOF exampleCollaborators
                "stream [mkToken (TokenOther 0) ''1'' 4 4]" "[]"]
    by (simp add: parseDeclarations_def)
qed

text \<open>
  C5. When a run of the declaration list hits a fatal error, the whole call fails:
  it returns, its result is that error, and the result holds no declaration list,
  whatever had been accumulated before.
\<close>

theorem parseDeclarations_fails_as_a_whole:
  assumes "reachesFatalError C endTokenType declarations p e"
  shows "parseDeclarationsLoop C endTokenType declarations p = Some (Inl e)"
  using assms
proof (induction rule: reachesFatalError.induct)
  case (skipsSemicolon p declarations e)
  then show ?case
    by (subst parseDeclarationsLoop.simps) (simp add: Let_def)
next
  case (declarationFails p e declarations)
  then show ?case
    by (subst parseDeclarationsLoop.simps) (simp add: Let_def)
next
  case (declarationAppended p d p2 declarations e)
  then show ?case
    by (subst parseDeclarationsLoop.simps) (simp add: Let_def)
qed

lemma exampleTwoLets_first:
  "parseDeclaration exampleCollaborators (skipSpaceAndComments exampleTwoLets) =
     Inr (Some (DeclVariable
            \<lparr>VariableDeclaration.Access = AccessNotSpecified, IsConstant = True,
             VariableDeclaration.Identifier =
               \<lparr>Identifier.Identifier = ''x'',
                Identifier.Pos = \<lparr>Offset = 4, Line = 1, Column = 4\<rparr>\<rparr>,
             TypeAnnotation = None,
             VariableDeclaration.Value = mkToken (TokenOther 0) ''1'' 6 6,
             Transfer = Some \<lparr>Operation = TransferOperationCopy,
                              Transfer.Pos = \<lparr>Offset = 5, Line = 1, Column = 5\<rparr>\<rparr>,
             VariableDeclaration.StartPos = \<lparr>Offset = 0, Line = 1, Column = 0\<rparr>,
             SecondTransfer = None, SecondValue = None\<rparr>),
          stream [mkToken TokenSemicolon '';'' 7 7,
                  mkToken TokenIdentifier ''let'' 8 10, mkSpace 11 11,
                  mkToken TokenIdentifier ''y'' 12 12])"
  by (simp add: parseDeclaration_def parseDeclarationLoop.simps parseVariableDeclaration_def
        tokenToIdentifier_def parseTransfer_def exampleTwoLets_def example_defs cursor_defs
        keyword_defs)

lemma exampleTwoLets_second:
  "parseDeclaration exampleCollaborators
     (skipSpaceAndComments
        (stream [mkToken TokenIdentifier ''let'' 8 10, mkSpace 11 11,
                 mkToken TokenIdentifier ''y'' 12 12])) =
     Inl (Errorf ''expected transfer'' [])"
  by (simp add: parseDeclaration_def parseDeclarationLoop.simps parseVariableDeclaration_def
        tokenToIdentifier_def parseTransfer_def example_defs cursor_defs keyword_defs)

theorem parseDeclarations_fails_as_a_whole_witness:
  "parseDeclarations exampleCollaborators exampleTwoLets TokenEOF =
     Some (Inl (Errorf ''expected transfer'' []))"
proof -
  let ?d = "DeclVariable
            \<lparr>VariableDeclaration.Access = AccessNotSpecified, IsConstant = True,
             VariableDeclaration.Identifier =
               \<lparr>Identifier.Identifier = ''x'',
                Identifier.Pos = \<lparr>Offset = 4, Line = 1, Column = 4\<rparr>\<rparr>,
             TypeAnnotation = None,
             VariableDeclaration.Value = mkToken (TokenOther 0) ''1'' 6 6,
             Transfer = Some \<lparr>Operation = TransferOperationCopy,
                              Transfer.Pos = \<lparr>Offset = 5, Line = 1, Column = 5\<rparr>\<rparr>,
             VariableDeclaration.StartPos = \<lparr>Offset = 0, Line = 1, Column = 0\<rparr>,
             SecondTransfer = None, SecondValue = None\<rparr>"
  let ?rest = "stream [mkToken TokenIdentifier ''let'' 8 10, mkSpace 11 11,
                       mkToken TokenIdentifier ''y'' 12 12]"
  let ?afterFirst = "stream [mkToken TokenSemicolon '';'' 7 7,
                             mkToken TokenIdentifier ''let'' 8 10, mkSpace 11 11,
                             mkToken TokenIdentifier ''y'' 12 12]"
  have "reachesFatalError exampleCollaborators TokenEOF ([] @ [?d]) ?rest
          (Errorf ''expected transfer'' [])"
    by (rule declarationFails [OF _ exampleTwoLets_second])
       (simp add: example_defs cursor_defs)
  moreover have "next_token (skipSpaceAndComments ?afterFirst) = ?rest"
    by (simp add: example_defs cursor_defs)
  moreover have "Type (current (skipSpaceAndComments ?afterFirst)) = TokenSemicolon"
    by (simp add: example_defs cursor_defs)
  ultimately have "reachesFatalError exampleCollaborators TokenEOF ([] @ [?d]) ?afterFirst
          (Errorf ''expected transfer'' [])"
    by (simp add: skipsSemicolon)
  moreover have "Type (current (skipSpaceAndComments exampleTwoLets))
      \<notin> {TokenSemicolon, TokenEOF, TokenEOF}"
    by (simp add: exampleTwoLets_def example_defs cursor_defs)
  ultimately have "reachesFatalError exampleCollaborators TokenEOF [] exampleTwoLets
          (Errorf ''expected transfer'' [])"
    using exampleTwoLets_first by (rule declarationAppended [rotated 2])
  then show ?thesis
    unfolding parseDeclarations_def by (rule parseDeclarations_fails_as_a_whole)
qed

end
